theory Spec2Isabelle
  imports Main "HOL-Library.AList"
begin

section \<open>Python values and exceptions\<close>

text \<open>
  The values that travel in queue messages and in responses of the search engine:
  Python's \<^verbatim>\<open>None\<close>, booleans, integers, strings, lists and dictionaries with string
  keys. A dictionary is an association list; \<open>map_of\<close> looks a key up.
\<close>

datatype pyval =
    PNone
  | PBool bool
  | PInt int
  | PStr string
  | PList "pyval list"
  | PDict "(string \<times> pyval) list"

text \<open>Truth value testing, as \<^verbatim>\<open>if x:\<close> and \<^verbatim>\<open>not x\<close> do it.\<close>

fun truthy :: "pyval \<Rightarrow> bool" where
  "truthy PNone = False"
| "truthy (PBool b) = b"
| "truthy (PInt n) = (n \<noteq> 0)"
| "truthy (PStr s) = (s \<noteq> [])"
| "truthy (PList xs) = (xs \<noteq> [])"
| "truthy (PDict kvs) = (kvs \<noteq> [])"

text \<open>
  Exceptions are the instances of Python's \<^verbatim>\<open>Exception\<close>: a class and the values the
  message is formatted from. The classes are those the sources name, the built-in ones
  their operations raise, and \<open>OtherException\<close> for every other class.
  \<^verbatim>\<open>HTTPError\<close>, \<^verbatim>\<open>ConnectionError\<close> and \<^verbatim>\<open>Timeout\<close> are subclasses of
  \<^verbatim>\<open>requests.RequestException\<close>.
\<close>

datatype exc_class =
    HTTPError | ConnectionError | Timeout | RequestException
  | DatabaseError
  | ElasticSearchError
  | HaystackError
  | KeyError | ValueError | TypeError | AttributeError | NameError
  | OtherException

datatype exn = Exn exc_class "pyval list"

fun exc_class_of :: "exn \<Rightarrow> exc_class" where
  "exc_class_of (Exn c args) = c"

definition is_RequestException :: "exn \<Rightarrow> bool" where
  "is_RequestException e =
     (exc_class_of e \<in> {RequestException, HTTPError, ConnectionError, Timeout})"

section \<open>Identifiers (utils/indexes.py)\<close>

text \<open>
  \<^verbatim>\<open>str.split(sep, maxsplit)\<close> for a one-character separator: at most \<open>maxsplit\<close>
  splits, from the left; the last piece keeps the separators that are left.
\<close>

fun str_split :: "char \<Rightarrow> nat \<Rightarrow> string \<Rightarrow> string list" where
  "str_split sep 0 s = [s]"
| "str_split sep (Suc n) s =
     (if sep \<in> set s
      then takeWhile (\<lambda>c. c \<noteq> sep) s # str_split sep n (tl (dropWhile (\<lambda>c. c \<noteq> sep) s))
      else [s])"

text \<open>
  The last lines of \<^verbatim>\<open>_get_model\<close>:
  \<^verbatim>\<open>app_label, model, object_pk = identifier.split('.', 2)\<close>.
  Unpacking a list of another length than three raises ValueError.
\<close>

definition split_identifier :: "string \<Rightarrow> exn + (string \<times> string \<times> string)" where
  "split_identifier identifier =
     (case str_split CHR ''.'' 2 identifier of
        [app_label, model, object_pk] \<Rightarrow> Inr (app_label, model, object_pk)
      | _ \<Rightarrow> Inl (Exn ValueError [PStr identifier]))"

text \<open>
  The identifier string as the specification writes it,
  \<^verbatim>\<open>"<type-namespace>.<type-name>.<primary-key>"\<close>.
\<close>

definition make_identifier :: "string \<Rightarrow> string \<Rightarrow> string \<Rightarrow> string" where
  "make_identifier ns name pk = ns @ ''.'' @ name @ ''.'' @ pk"

text \<open>\<^verbatim>\<open>sep.join(pieces)\<close> for a one-character separator.\<close>

fun str_join :: "char \<Rightarrow> string list \<Rightarrow> string" where
  "str_join sep [] = []"
| "str_join sep [x] = x"
| "str_join sep (x # y # ys) = x @ sep # str_join sep (y # ys)"

section \<open>Schemas and conflict detection (utils/mappings.py)\<close>

text \<open>
  A schema maps a field name to a descriptor, and a descriptor maps a property name
  (\<^verbatim>\<open>type\<close>, \<^verbatim>\<open>store\<close>, \<^verbatim>\<open>analyzer\<close>, \<^verbatim>\<open>index\<close>, ...) to a scalar value of
  the engine's JSON: null, a boolean, a number or a string. The mapping document wraps
  the schema as \<^verbatim>\<open>{'modelresult': {'properties': schema}}\<close>. Dictionaries are
  association lists.
\<close>

datatype prop_value = NoneValue | BoolValue bool | IntValue int | StrValue string

type_synonym descriptor = "(string \<times> prop_value) list"
type_synonym properties = "(string \<times> descriptor) list"
type_synonym mapping = "(string \<times> (string \<times> properties) list) list"

text \<open>Python's \<^verbatim>\<open>==\<close> on these values; \<^verbatim>\<open>True == 1\<close> and \<^verbatim>\<open>False == 0\<close> hold.\<close>

fun py_eq :: "prop_value \<Rightarrow> prop_value \<Rightarrow> bool" where
  "py_eq NoneValue NoneValue = True"
| "py_eq (BoolValue a) (BoolValue b) = (a = b)"
| "py_eq (BoolValue a) (IntValue n) = (n = (if a then 1 else 0))"
| "py_eq (IntValue n) (BoolValue a) = (n = (if a then 1 else 0))"
| "py_eq (IntValue m) (IntValue n) = (m = n)"
| "py_eq (StrValue s) (StrValue t) = (s = t)"
| "py_eq _ _ = False"

text \<open>\<^verbatim>\<open>d.get(key)\<close>: the value, or \<^verbatim>\<open>None\<close> for a missing key.\<close>

definition dict_get :: "descriptor \<Rightarrow> string \<Rightarrow> prop_value" where
  "dict_get d key = (case map_of d key of None \<Rightarrow> NoneValue | Some v \<Rightarrow> v)"

text \<open>\<^verbatim>\<open>d[key]\<close>: the value, or KeyError.\<close>

definition getitem :: "(string \<times> 'v) list \<Rightarrow> string \<Rightarrow> exn + 'v" where
  "getitem d key = (case map_of d key of None \<Rightarrow> Inl (Exn KeyError [PStr key]) | Some v \<Rightarrow> Inr v)"

text \<open>
  A Python set of values is a list read up to \<open>py_eq\<close>; two sets are equal when each
  holds the members of the other.
  \<^verbatim>\<open>EQUIVALENT_VALUES = tuple(set(items) for items in (('no', None), ('yes', True)))\<close>
\<close>

definition py_set_eq :: "prop_value list \<Rightarrow> prop_value list \<Rightarrow> bool" where
  "py_set_eq A B =
     (list_all (\<lambda>a. list_ex (py_eq a) B) A \<and> list_all (\<lambda>b. list_ex (py_eq b) A) B)"

definition EQUIVALENT_VALUES :: "prop_value list list" where
  "EQUIVALENT_VALUES = [[StrValue ''no'', NoneValue], [StrValue ''yes'', BoolValue True]]"

text \<open>
  The body of the inner loop of \<^verbatim>\<open>find_conflicts\<close> for one property name: does it
  reach \<^verbatim>\<open>yield field_name\<close>?
\<close>

definition prop_conflicts :: "descriptor \<Rightarrow> descriptor \<Rightarrow> string \<Rightarrow> bool" where
  "prop_conflicts existing_mapping new_mapping prop_name =
     (let new_prop_value = dict_get new_mapping prop_name;
          old_prop_value = dict_get existing_mapping prop_name
      in if \<not> py_eq new_prop_value old_prop_value
         then (if list_ex (py_set_eq [old_prop_value, new_prop_value]) EQUIVALENT_VALUES
               then False
               else True)
         else False)"

text \<open>
  What one pass of the outer loop yields for a shared field: the field name once for
  each property name, in the order \<^verbatim>\<open>('analyzer', 'store', 'type')\<close>, that reaches
  the \<^verbatim>\<open>yield\<close>. There is no \<^verbatim>\<open>break\<close> after the \<^verbatim>\<open>yield\<close>.
\<close>

definition field_yields :: "string \<Rightarrow> descriptor \<Rightarrow> descriptor \<Rightarrow> string list" where
  "field_yields field_name existing_mapping new_mapping =
     map (\<lambda>prop_name. field_name)
       (filter (prop_conflicts existing_mapping new_mapping) [''analyzer'', ''store'', ''type''])"

text \<open>
  \<^verbatim>\<open>set(old.keys()).intersection(new.keys())\<close>. Python leaves the iteration order of a
  set open; the model takes the order of the old schema's keys.
\<close>

definition shared_fields :: "properties \<Rightarrow> properties \<Rightarrow> string list" where
  "shared_fields old_props new_props =
     filter (\<lambda>k. k \<in> set (map fst new_props)) (remdups (map fst old_props))"

text \<open>
  The generator \<^verbatim>\<open>find_conflicts\<close>, as the sequence it yields. The two subscript
  chains run before the first \<^verbatim>\<open>yield\<close>, so a KeyError of theirs is raised when the
  generator is first advanced and nothing has been yielded. A shared field is a key of
  both schemas, so the two lookups in the loop find it.
\<close>

definition find_conflicts :: "mapping \<Rightarrow> mapping \<Rightarrow> exn + string list" where
  "find_conflicts old_mappings new_mappings =
     (if old_mappings = [] \<or> new_mappings = [] then Inr []
      else
        case getitem old_mappings ''modelresult'' of Inl e \<Rightarrow> Inl e | Inr old_doc \<Rightarrow>
        case getitem old_doc ''properties'' of Inl e \<Rightarrow> Inl e | Inr old_props \<Rightarrow>
        case getitem new_mappings ''modelresult'' of Inl e \<Rightarrow> Inl e | Inr new_doc \<Rightarrow>
        case getitem new_doc ''properties'' of Inl e \<Rightarrow> Inl e | Inr new_props \<Rightarrow>
          Inr (concat (map (\<lambda>field_name.
                 case (map_of old_props field_name, map_of new_props field_name) of
                   (Some existing_mapping, Some new_mapping) \<Rightarrow>
                     field_yields field_name existing_mapping new_mapping
                 | _ \<Rightarrow> [])
               (shared_fields old_props new_props))))"

section \<open>Schema building (backends/elasticsearch\_backend.py)\<close>

text \<open>
  The body of the loop of \<^verbatim>\<open>build_schema\<close> on one field's descriptor:
  \<^verbatim>\<open>del mapping['index']\<close> for a boolean field indexed as \<^verbatim>\<open>analyzed\<close>, then the
  move of an n-gram analyzer to \<^verbatim>\<open>index_analyzer\<close>.
\<close>

definition in_ngram_analyzers :: "prop_value \<Rightarrow> bool" where
  "in_ngram_analyzers v =
     list_ex (py_eq v) [StrValue ''ngram_analyzer'', StrValue ''edgengram_analyzer'']"

definition adjust_mapping :: "descriptor \<Rightarrow> descriptor" where
  "adjust_mapping mapping0 =
     (let mapping1 =
            (if py_eq (dict_get mapping0 ''type'') (StrValue ''boolean'')
             then (if py_eq (dict_get mapping0 ''index'') (StrValue ''analyzed'')
                   then AList.delete ''index'' mapping0
                   else mapping0)
             else mapping0)
      in if in_ngram_analyzers (dict_get mapping1 ''analyzer'')
         then AList.update ''search_analyzer'' (StrValue ''default'')
                (AList.update ''index_analyzer'' (dict_get mapping1 ''analyzer'')
                   (AList.delete ''analyzer'' mapping1))
         else mapping1)"

text \<open>
  \<^verbatim>\<open>build_schema\<close>. The inherited builder of the search library is the parameter
  \<open>super_build_schema\<close>; the loop runs only on a backend flagged \<^verbatim>\<open>new_version\<close>.
\<close>

definition build_schema ::
  "bool \<Rightarrow> ('f \<Rightarrow> string \<times> properties) \<Rightarrow> 'f \<Rightarrow> string \<times> properties" where
  "build_schema new_version super_build_schema fields =
     (case super_build_schema fields of (content_field_name, field_mapping) \<Rightarrow>
        if new_version
        then (content_field_name,
              map (\<lambda>(field, mapping). (field, adjust_mapping mapping)) field_mapping)
        else (content_field_name, field_mapping))"

section \<open>Effects\<close>

text \<open>
  A model class is its natural key (application label, model name). An item handed to
  the update functions is an identifier string, a LazyModel wrapper around an
  identifier, a model instance (its class and primary key) or a model class.
\<close>

type_synonym model = "string \<times> string"

datatype item =
    IdentStr string
  | Lazy string
  | Instance model string
  | ModelClass model

text \<open>
  What a function does to the world is the list of the calls it makes, in order. A log
  call keeps its message template and the values formatted into it. The plain log
  calls, \<^verbatim>\<open>time.sleep\<close> and the closing of the database connections return.
\<close>

datatype level = INFO | WARNING | ERROR | CRITICAL

datatype log_arg = Val pyval | Err exn | Obj item

datatype event =
    Log level string "log_arg list"
  | LogException string "log_arg list"
  | CallUpdate pyval pyval
  | Ack string
  | Sleep nat
  | CloseConnections
  | QueuePut string
  | RemoveObject string string
  | UpdateObject string item
  | BulkIndex string "(string \<times> pyval) list list"
  | Refresh string

section \<open>Response validation (ElasticSearch.\_send\_request)\<close>

text \<open>\<^verbatim>\<open>obj.get(key)\<close> on a value: only a dictionary has the method.\<close>

definition py_get :: "pyval \<Rightarrow> string \<Rightarrow> exn + pyval" where
  "py_get obj key =
     (case obj of
        PDict kvs \<Rightarrow> Inr (case map_of kvs key of None \<Rightarrow> PNone | Some v \<Rightarrow> v)
      | _ \<Rightarrow> Inl (Exn AttributeError [PStr ''get'']))"

text \<open>The loop over \<^verbatim>\<open>items\<close>, with the list \<^verbatim>\<open>errors\<close> as accumulator.\<close>

fun collect_errors :: "pyval list \<Rightarrow> pyval list \<Rightarrow> exn + pyval list" where
  "collect_errors [] errors = Inr errors"
| "collect_errors (item # items) errors =
     (case py_get item ''index'' of
        Inl e \<Rightarrow> Inl e
      | Inr index \<Rightarrow>
          (case index of
             PDict kvs \<Rightarrow>
               (case map_of kvs ''error'' of
                  Some err \<Rightarrow> collect_errors items (errors @ [err])
                | None \<Rightarrow> collect_errors items errors)
           | _ \<Rightarrow> collect_errors items errors))"

text \<open>
  The error object that an item of the per-item result list carries, where
  \<^verbatim>\<open>_send_request\<close> looks for it: the value under \<^verbatim>\<open>'error'\<close> of the result object
  under the item's \<^verbatim>\<open>'index'\<close> key.
\<close>

fun is_dict :: "pyval \<Rightarrow> bool" where
  "is_dict (PDict kvs) = True"
| "is_dict _ = False"

definition item_error :: "pyval \<Rightarrow> pyval option" where
  "item_error item =
     (case item of
        PDict kvs \<Rightarrow>
          (case map_of kvs ''index'' of
             Some (PDict result) \<Rightarrow> map_of result ''error''
           | _ \<Rightarrow> None)
      | _ \<Rightarrow> None)"

text \<open>\<^verbatim>\<open>'\n'.join(errors)\<close>: TypeError unless every element is a string.\<close>

fun strings_of :: "pyval list \<Rightarrow> string list option" where
  "strings_of [] = Some []"
| "strings_of (PStr s # vs) = map_option ((#) s) (strings_of vs)"
| "strings_of (_ # vs) = None"

definition join_errors :: "pyval list \<Rightarrow> exn + string" where
  "join_errors errors =
     (case strings_of errors of
        None \<Rightarrow> Inl (Exn TypeError [PStr ''join''])
      | Some strs \<Rightarrow> Inr (str_join (CHR 0x0A) strs))"

text \<open>
  \<^verbatim>\<open>_send_request\<close>, applied to the outcome of the inherited \<^verbatim>\<open>_send_request\<close>
  (the transport): its exception, or the decoded response.
\<close>

definition send_request :: "exn + pyval \<Rightarrow> exn + pyval" where
  "send_request super_send_request =
     (case super_send_request of
        Inl e \<Rightarrow> Inl e
      | Inr response_data \<Rightarrow>
          (case py_get response_data ''items'' of
             Inl e \<Rightarrow> Inl e
           | Inr items \<Rightarrow>
               (case items of
                  PList its \<Rightarrow>
                    (case collect_errors its [] of
                       Inl e \<Rightarrow> Inl e
                     | Inr errors \<Rightarrow>
                         if errors \<noteq> []
                         then (case join_errors errors of
                                 Inl e \<Rightarrow> Inl e
                               | Inr joined \<Rightarrow>
                                   Inl (Exn ElasticSearchError
                                          [PInt (int (length errors)), PStr joined]))
                         else Inr response_data)
                | _ \<Rightarrow> Inr response_data)))"

text \<open>
  \<^verbatim>\<open>from_python\<close> of the same class: a list is converted element by element by the
  inherited conversion.
\<close>

fun map_exn :: "('a \<Rightarrow> exn + 'b) \<Rightarrow> 'a list \<Rightarrow> exn + 'b list" where
  "map_exn f [] = Inr []"
| "map_exn f (x # xs) =
     (case f x of
        Inl e \<Rightarrow> Inl e
      | Inr y \<Rightarrow> (case map_exn f xs of Inl e \<Rightarrow> Inl e | Inr ys \<Rightarrow> Inr (y # ys)))"

definition from_python :: "(pyval \<Rightarrow> exn + pyval) \<Rightarrow> pyval \<Rightarrow> exn + pyval" where
  "from_python super_from_python v =
     (case v of
        PList its \<Rightarrow>
          (case map_exn super_from_python its of Inl e \<Rightarrow> Inl e | Inr ys \<Rightarrow> Inr (PList ys))
      | _ \<Rightarrow> super_from_python v)"

section \<open>Index set-up (ElasticsearchSearchBackend.setup)\<close>

text \<open>
  The engine as \<^verbatim>\<open>setup\<close> uses it, the two settings it reads, and the fields of the
  backend object it reads and writes. The call
  \<^verbatim>\<open>logging.exception(log_function=logging.error)\<close> of the quiet branch is the
  parameter \<open>log_exception\<close> of the functions below: given the exception being handled,
  \<open>None\<close> when the call returns and the exception it raises otherwise. The call passes
  no message; the \<^verbatim>\<open>exception\<close> function of the standard library's logging module
  raises TypeError for it.
\<close>

record conn =
  create_index :: "string \<Rightarrow> exn option"
  put_mapping :: "string \<Rightarrow> mapping \<Rightarrow> exn option"
  get_mapping :: "exn + (string \<times> mapping) list"

record settings =
  DEBUG :: bool
  TEST_MODE :: bool

record backend =
  silently_fail :: bool
  new_version :: bool
  existing_mapping :: mapping
  content_field_name :: string
  setup_complete :: bool

text \<open>
  The first \<^verbatim>\<open>try\<close> of the handler:
  \<^verbatim>\<open>self.existing_mapping = self.conn.get_mapping()[index_name]\<close>; a KeyError is passed
  over, another exception raises the original \<open>error\<close> unless the backend fails
  silently.
\<close>

definition fetch_existing :: "conn \<Rightarrow> backend \<Rightarrow> string \<Rightarrow> exn \<Rightarrow> exn + backend" where
  "fetch_existing c b index_name error =
     (case (case get_mapping c of Inl e \<Rightarrow> Inl e | Inr ms \<Rightarrow> getitem ms index_name) of
        Inr m \<Rightarrow> Inr (b\<lparr>existing_mapping := m\<rparr>)
      | Inl e \<Rightarrow>
          if exc_class_of e = KeyError then Inr b
          else if \<not> silently_fail b then Inl error
          else Inr b)"

text \<open>
  The body of the second \<^verbatim>\<open>try\<close>: the \<^verbatim>\<open>for\<close> loop raises HaystackError at the first
  field that \<^verbatim>\<open>find_conflicts\<close> yields, its \<^verbatim>\<open>else\<close> raises \<open>error\<close> when nothing
  is yielded, and an exception of the generator is raised as it is. The body always
  raises; the value is the exception it raises.
\<close>

definition conflict_check_body :: "mapping \<Rightarrow> mapping \<Rightarrow> exn \<Rightarrow> exn" where
  "conflict_check_body existing current_mapping error =
     (case find_conflicts existing current_mapping of
        Inl e \<Rightarrow> e
      | Inr [] \<Rightarrow> error
      | Inr (field_name # _) \<Rightarrow> Exn HaystackError [PStr field_name])"

text \<open>
  The second \<^verbatim>\<open>try\<close> with its handler \<^verbatim>\<open>except Exception: raise error\<close>: whatever the
  body raised is an \<^verbatim>\<open>Exception\<close>, HaystackError too, so the handler catches it and
  raises \<open>error\<close>.
\<close>

definition conflict_check :: "mapping \<Rightarrow> mapping \<Rightarrow> exn \<Rightarrow> exn" where
  "conflict_check existing current_mapping error =
     (let raised = conflict_check_body existing current_mapping error in error)"

text \<open>
  One pass of the loop over the index groups: the state, the log, the exception raised.
  In the quiet branch an exception of the log call is raised inside the handler and
  leaves the set-up.
\<close>

definition setup_index ::
  "conn \<Rightarrow> settings \<Rightarrow> (exn \<Rightarrow> exn option) \<Rightarrow> ('f \<Rightarrow> string \<times> properties) \<Rightarrow> backend
     \<Rightarrow> string \<times> 'f \<Rightarrow> backend \<times> event list \<times> exn option" where
  "setup_index c s log_exception super_build_schema b index_group =
     (case index_group of (index_name, searchfields) \<Rightarrow>
      case build_schema (new_version b) super_build_schema searchfields of
        (cfn, field_mapping) \<Rightarrow>
      let b1 = b\<lparr>content_field_name := cfn\<rparr>;
          current_mapping = [(''modelresult'', [(''properties'', field_mapping)])]
      in case (case create_index c index_name of
                 Some e \<Rightarrow> Some e
               | None \<Rightarrow> put_mapping c index_name current_mapping) of
           None \<Rightarrow> (b1\<lparr>existing_mapping := current_mapping\<rparr>, [], None)
         | Some error \<Rightarrow>
             (case fetch_existing c b1 index_name error of
                Inl e \<Rightarrow> (b1, [], Some e)
              | Inr b2 \<Rightarrow>
                  if DEBUG s \<or> TEST_MODE s \<or> \<not> silently_fail b2
                  then (b2, [], Some (conflict_check (existing_mapping b2) current_mapping error))
                  else (b2, [LogException [] [Err error]], log_exception error)))"

fun setup_groups ::
  "conn \<Rightarrow> settings \<Rightarrow> (exn \<Rightarrow> exn option) \<Rightarrow> ('f \<Rightarrow> string \<times> properties) \<Rightarrow> backend
     \<Rightarrow> (string \<times> 'f) list \<Rightarrow> backend \<times> event list \<times> exn option" where
  "setup_groups c s lg sb b [] = (b\<lparr>setup_complete := True\<rparr>, [], None)"
| "setup_groups c s lg sb b (g # gs) =
     (case setup_index c s lg sb b g of
        (b1, evs, Some e) \<Rightarrow> (b1, evs, Some e)
      | (b1, evs, None) \<Rightarrow>
          (case setup_groups c s lg sb b1 gs of (b2, evs2, r) \<Rightarrow> (b2, evs @ evs2, r)))"

text \<open>
  \<^verbatim>\<open>setup\<close>, given the index groups that \<^verbatim>\<open>setup_index_groups\<close> produced, each with
  the fields of its isolated index.
\<close>

definition backend_setup ::
  "conn \<Rightarrow> settings \<Rightarrow> (exn \<Rightarrow> exn option) \<Rightarrow> ('f \<Rightarrow> string \<times> properties) \<Rightarrow> backend
     \<Rightarrow> (string \<times> 'f) list \<Rightarrow> backend \<times> event list \<times> exn option" where
  "backend_setup c s log_exception super_build_schema b index_groups =
     setup_groups c s log_exception super_build_schema b index_groups"

section \<open>Bulk update (ElasticsearchSearchBackend.update)\<close>

text \<open>
  What \<^verbatim>\<open>update\<close> calls: \<^verbatim>\<open>index.full_prepare\<close>, the inherited value conversion, the
  table \<^verbatim>\<open>self.index_names\<close>, the engine's \<^verbatim>\<open>bulk_index\<close> and \<^verbatim>\<open>refresh\<close>, and
  \<^verbatim>\<open>self.setup()\<close> with its outcome.
\<close>

record 'o indexer =
  full_prepare :: "'o \<Rightarrow> exn + (string \<times> pyval) list"
  super_from_python :: "pyval \<Rightarrow> exn + pyval"
  object_identifier :: "'o \<Rightarrow> string"
  index_names :: "(string \<times> string) list"
  bulk_index :: "string \<Rightarrow> (string \<times> pyval) list list \<Rightarrow> exn option"
  refresh :: "string \<Rightarrow> exn option"
  run_setup :: "exn option"

text \<open>
  The body of the inner \<^verbatim>\<open>try\<close> for one object: prepare it, then convert every value
  of the prepared data.
\<close>

definition prepare_one :: "'o indexer \<Rightarrow> 'o \<Rightarrow> exn + (string \<times> pyval) list" where
  "prepare_one ix obj =
     (case full_prepare ix obj of
        Inl e \<Rightarrow> Inl e
      | Inr prepped_data \<Rightarrow>
          map_exn (\<lambda>(key, v).
                     case from_python (super_from_python ix) v of
                       Inl e \<Rightarrow> Inl e
                     | Inr v' \<Rightarrow> Inr (key, v'))
            prepped_data)"

text \<open>\<^verbatim>\<open>except (requests.RequestException, pyelasticsearch.ElasticSearchError), e\<close>\<close>

definition caught_in_update :: "exn \<Rightarrow> bool" where
  "caught_in_update e = (is_RequestException e \<or> exc_class_of e = ElasticSearchError)"

text \<open>
  \<^verbatim>\<open>e.__name__\<close> in the handler: \<open>e\<close> is an exception instance, and an instance has no
  attribute \<^verbatim>\<open>__name__\<close> (its class has), so the attribute access raises
  AttributeError before \<^verbatim>\<open>self.log.error\<close> is called.
\<close>

definition exception_name :: "exn \<Rightarrow> exn + string" where
  "exception_name e = Inl (Exn AttributeError [PStr ''__name__''])"

text \<open>
  The loop over the objects, with \<^verbatim>\<open>prepped_docs\<close> and the log as accumulators. The
  result is the log and either the exception that leaves the loop or the documents.
\<close>

fun prepare_all ::
  "'o indexer \<Rightarrow> bool \<Rightarrow> 'o list \<Rightarrow> (string \<times> pyval) list list \<Rightarrow> event list
     \<Rightarrow> event list \<times> (exn + (string \<times> pyval) list list)" where
  "prepare_all ix sf [] prepped_docs evs = (evs, Inr prepped_docs)"
| "prepare_all ix sf (obj # objs) prepped_docs evs =
     (case prepare_one ix obj of
        Inr final_data \<Rightarrow> prepare_all ix sf objs (prepped_docs @ [final_data]) evs
      | Inl e \<Rightarrow>
          if caught_in_update e
          then (if \<not> sf then (evs, Inl e)
                else (case exception_name e of
                        Inl e' \<Rightarrow> (evs, Inl e')
                      | Inr name \<Rightarrow>
                          prepare_all ix sf objs prepped_docs
                            (evs @ [Log ERROR ''%s while preparing object for update''
                                      [Val (PStr name), Val (PStr (object_identifier ix obj))]])))
          else (evs, Inl e))"

text \<open>
  \<^verbatim>\<open>update(index, iterable, commit)\<close>: the calls it makes and the exception it raises,
  if any. A bulk write is recorded when \<^verbatim>\<open>bulk_index\<close> is called.
\<close>

definition update_docs ::
  "'o indexer \<Rightarrow> backend \<Rightarrow> string \<Rightarrow> 'o list \<Rightarrow> bool \<Rightarrow> event list \<times> exn option" where
  "update_docs ix b index iterable commit =
     (case prepare_all ix (silently_fail b) iterable [] [] of
        (evs, Inl e) \<Rightarrow> (evs, Some e)
      | (evs, Inr prepped_docs) \<Rightarrow>
          (case getitem (index_names ix) index of
             Inl e \<Rightarrow> (evs, Some e)
           | Inr index_name \<Rightarrow>
               (case bulk_index ix index_name prepped_docs of
                  Some e \<Rightarrow> (evs @ [BulkIndex index_name prepped_docs], Some e)
                | None \<Rightarrow>
                    if commit
                    then (evs @ [BulkIndex index_name prepped_docs, Refresh index_name],
                          refresh ix index_name)
                    else (evs @ [BulkIndex index_name prepped_docs], None))))"

definition update ::
  "'o indexer \<Rightarrow> backend \<Rightarrow> string \<Rightarrow> 'o list \<Rightarrow> bool \<Rightarrow> event list \<times> exn option" where
  "update ix b index iterable commit =
     (if \<not> setup_complete b
      then (case run_setup ix of
              Some e \<Rightarrow>
                if exc_class_of e = ElasticSearchError
                then (if \<not> silently_fail b then ([], Some e)
                      else ([Log ERROR ''Failed to add documents to Elasticsearch: %s'' [Err e]],
                            None))
                else ([], Some e)
            | None \<Rightarrow> update_docs ix b index iterable commit)
      else update_docs ix b index iterable commit)"

section \<open>Update dispatch (update.py, utils/indexes.py)\<close>

text \<open>
  What the update functions call: the content-type table (\<^verbatim>\<open>model_class()\<close> may be
  \<^verbatim>\<open>None\<close>), the registry of indexes, the truth value of a LazyModel (whether the
  object can be loaded; loading may raise), the class a loaded LazyModel reports, the
  two methods of an index, \<^verbatim>\<open>LazyModel.get_identifier\<close> on a class, the call
  \<^verbatim>\<open>logging.exception(..., debug_raise=True)\<close> of the project's logger (which returns,
  or raises), \<^verbatim>\<open>pickle.dumps\<close>, and opening the queue and putting a message.
\<close>

record update_env =
  content_type_model :: "string \<Rightarrow> string \<Rightarrow> exn + model option"
  unified_get_index :: "model option \<Rightarrow> exn + string"
  lazy_exists :: "string \<Rightarrow> exn + bool"
  lazy_class :: "string \<Rightarrow> model"
  index_remove_object :: "string \<Rightarrow> string \<Rightarrow> exn option"
  index_update_object :: "string \<Rightarrow> item \<Rightarrow> exn option"
  class_identifier :: "model \<Rightarrow> exn + string"
  logging_exception :: "exn \<Rightarrow> exn option"
  pickle_dumps :: "pyval \<Rightarrow> string"
  queue_put :: "string \<Rightarrow> exn option"

text \<open>\<^verbatim>\<open>LazyModel.get_identifier(item)\<close>\<close>

definition get_identifier :: "update_env \<Rightarrow> item \<Rightarrow> exn + string" where
  "get_identifier env it =
     (case it of
        IdentStr s \<Rightarrow> Inr s
      | Lazy s \<Rightarrow> Inr s
      | Instance m pk \<Rightarrow> Inr (make_identifier (fst m) (snd m) pk)
      | ModelClass m \<Rightarrow> class_identifier env m)"

text \<open>\<^verbatim>\<open>_get_model\<close> and \<^verbatim>\<open>get_index\<close> of utils/indexes.py.\<close>

definition model_of_identifier :: "update_env \<Rightarrow> string \<Rightarrow> exn + model option" where
  "model_of_identifier env identifier =
     (case split_identifier identifier of
        Inl e \<Rightarrow> Inl e
      | Inr (app_label, model, object_pk) \<Rightarrow> content_type_model env app_label model)"

definition get_model :: "update_env \<Rightarrow> item \<Rightarrow> exn + model option" where
  "get_model env it =
     (case it of
        IdentStr identifier \<Rightarrow> model_of_identifier env identifier
      | Lazy s \<Rightarrow>
          (case lazy_exists env s of
             Inl e \<Rightarrow> Inl e
           | Inr ex \<Rightarrow>
               if \<not> ex
               then (case get_identifier env it of
                       Inl e \<Rightarrow> Inl e
                     | Inr identifier \<Rightarrow> model_of_identifier env identifier)
               else Inr (Some (lazy_class env s)))
      | Instance m pk \<Rightarrow> Inr (Some m)
      | ModelClass m \<Rightarrow> Inr (Some m))"

definition get_index :: "update_env \<Rightarrow> item \<Rightarrow> exn + string" where
  "get_index env it =
     (case get_model env it of Inl e \<Rightarrow> Inl e | Inr m \<Rightarrow> unified_get_index env m)"

text \<open>
  The last \<^verbatim>\<open>if remove: ... else: ...\<close> of \<^verbatim>\<open>update_object\<close>: the calls, the
  exception raised, and the value \<open>item\<close> is bound to.
\<close>

definition apply_update ::
  "update_env \<Rightarrow> string \<Rightarrow> item \<Rightarrow> pyval \<Rightarrow> event list \<Rightarrow> event list \<times> exn option \<times> item" where
  "apply_update env index it remove evs =
     (if truthy remove
      then (case get_identifier env it of
              Inl e \<Rightarrow> (evs, Some e, it)
            | Inr identifier \<Rightarrow>
                (evs @ [RemoveObject index identifier],
                 index_remove_object env index identifier, it))
      else (evs @ [UpdateObject index it], index_update_object env index it, it))"

text \<open>The body of the \<^verbatim>\<open>try\<close> of \<^verbatim>\<open>update_object\<close>.\<close>

definition update_object_body ::
  "update_env \<Rightarrow> item \<Rightarrow> pyval \<Rightarrow> event list \<times> exn option \<times> item" where
  "update_object_body env item0 remove =
     (case get_index env item0 of
        Inl e \<Rightarrow> ([], Some e, item0)
      | Inr index \<Rightarrow>
          let item1 = (case item0 of
                         IdentStr s \<Rightarrow> if \<not> truthy remove then Lazy s else item0
                       | _ \<Rightarrow> item0)
          in if \<not> truthy remove
             then (case item1 of
                     Lazy s \<Rightarrow>
                       (case lazy_exists env s of
                          Inl e \<Rightarrow> ([], Some e, item1)
                        | Inr ex \<Rightarrow>
                            if \<not> ex
                            then (case get_identifier env item1 of
                                    Inl e \<Rightarrow> ([], Some e, item1)
                                  | Inr identifier \<Rightarrow>
                                      apply_update env index item1 (PBool True)
                                        [Log WARNING ''Could not access %r for indexing''
                                           [Val (PStr identifier)]])
                            else apply_update env index item1 remove [])
                   | _ \<Rightarrow> apply_update env index item1 remove [])
             else apply_update env index item1 remove [])"

text \<open>
  \<^verbatim>\<open>update_object(item, remove, exception_handling)\<close>. The decorator
  \<^verbatim>\<open>post_commit_once\<close> is not defined in the repository; the model is of the decorated
  body, at the time the decorator runs it.
\<close>

definition update_object ::
  "update_env \<Rightarrow> item \<Rightarrow> pyval \<Rightarrow> bool \<Rightarrow> event list \<times> exn option" where
  "update_object env it remove exception_handling =
     (case update_object_body env it remove of
        (evs, None, it') \<Rightarrow> (evs, None)
      | (evs, Some e, it') \<Rightarrow>
          if exception_handling
          then (evs @ [LogException ''Error running update_object(%r)'' [Obj it']],
                logging_exception env e)
          else (evs, Some e))"

text \<open>
  The message of \<^verbatim>\<open>queue_update\<close>: \<^verbatim>\<open>{'identifier': identifier}\<close>, with
  \<^verbatim>\<open>'remove': True\<close> added when \<open>remove\<close> is true.
\<close>

definition update_message :: "string \<Rightarrow> pyval \<Rightarrow> pyval" where
  "update_message identifier remove =
     PDict ((''identifier'', PStr identifier)
            # (if truthy remove then [(''remove'', PBool True)] else []))"

text \<open>
  \<^verbatim>\<open>queue_update(item, remove)\<close>. The name \<^verbatim>\<open>message_queue\<close> is not defined in the
  module either; opening the queue and putting the message is the call \<open>queue_put\<close>
  of the environment, which returns or raises.
\<close>

definition queue_update :: "update_env \<Rightarrow> item \<Rightarrow> pyval \<Rightarrow> event list \<times> exn option" where
  "queue_update env it remove =
     (case get_identifier env it of
        Inl e \<Rightarrow> ([], Some e)
      | Inr identifier \<Rightarrow>
          let message_body = pickle_dumps env (update_message identifier remove)
          in case queue_put env message_body of
               None \<Rightarrow> ([QueuePut message_body], None)
             | Some e \<Rightarrow>
                 (case logging_exception env e of
                    Some e' \<Rightarrow>
                      ([QueuePut message_body,
                        LogException
                          ''Could not send async message. Running search update immediately.'' []],
                       Some e')
                  | None \<Rightarrow>
                      (case update_object env it remove True of
                         (evs, r) \<Rightarrow>
                           ([QueuePut message_body,
                             LogException
                               ''Could not send async message. Running search update immediately.''
                               []] @ evs, r))))"

section \<open>Queue consumer (consume.py)\<close>

text \<open>
  What the handler calls: \<^verbatim>\<open>pickle.loads\<close>, \<^verbatim>\<open>update_object\<close> with
  \<^verbatim>\<open>exception_handling=False\<close>, and the queue's \<^verbatim>\<open>ack\<close>. The last two act on the
  world \<open>'w\<close> and may raise.
\<close>

record 'w consumer_env =
  pickle_loads :: "string \<Rightarrow> exn + pyval"
  update_search_index :: "'w \<Rightarrow> pyval \<Rightarrow> pyval \<Rightarrow> 'w \<times> exn option"
  queue_ack :: "'w \<Rightarrow> string \<Rightarrow> 'w \<times> exn option"

text \<open>\<^verbatim>\<open>RetryExceptions = (HTTPError, ConnectionError, Timeout, DatabaseError)\<close>\<close>

definition RetryExceptions :: "exc_class list" where
  "RetryExceptions = [HTTPError, ConnectionError, Timeout, DatabaseError]"

definition is_retry :: "exn \<Rightarrow> bool" where
  "is_retry e = (exc_class_of e \<in> set RetryExceptions)"

text \<open>\<^verbatim>\<open>on_error\<close>: the database connections are closed after a DatabaseError.\<close>

definition on_error :: "exn \<Rightarrow> event list" where
  "on_error error = (if exc_class_of error = DatabaseError then [CloseConnections] else [])"

text \<open>
  Unpacking: \<^verbatim>\<open>message_body['identifier']\<close> (KeyError for a dictionary without the key,
  TypeError for a value that is no dictionary) and \<^verbatim>\<open>message_body.get('remove')\<close>.
\<close>

definition unpack :: "pyval \<Rightarrow> exn + (pyval \<times> pyval)" where
  "unpack message_body =
     (case message_body of
        PDict kvs \<Rightarrow>
          (case map_of kvs ''identifier'' of
             None \<Rightarrow> Inl (Exn KeyError [PStr ''identifier''])
           | Some identifier \<Rightarrow>
               Inr (identifier, (case map_of kvs ''remove'' of None \<Rightarrow> PNone | Some r \<Rightarrow> r)))
      | _ \<Rightarrow> Inl (Exn TypeError [PStr ''identifier'']))"

definition deserialize :: "'w consumer_env \<Rightarrow> string \<Rightarrow> exn + (pyval \<times> pyval)" where
  "deserialize env message_body =
     (case pickle_loads env message_body of Inl e \<Rightarrow> Inl e | Inr v \<Rightarrow> unpack v)"

text \<open>
  \<^verbatim>\<open>queue.ack(message_id)\<close> inside the outer \<^verbatim>\<open>try\<close>: the world, the calls so far,
  the flag \<open>retry\<close>, and the exception raised.
\<close>

definition ack_in_try ::
  "'w consumer_env \<Rightarrow> 'w \<Rightarrow> string \<Rightarrow> event list \<Rightarrow> bool
     \<Rightarrow> 'w \<times> event list \<times> bool \<times> exn option" where
  "ack_in_try env w message_id evs retry =
     (case queue_ack env w message_id of
        (w', None) \<Rightarrow> (w', evs @ [Ack message_id], retry, None)
      | (w', Some e) \<Rightarrow> (w', evs, retry, Some e))"

text \<open>The body of the outer \<^verbatim>\<open>try\<close>.\<close>

definition try_update ::
  "'w consumer_env \<Rightarrow> 'w \<Rightarrow> pyval \<Rightarrow> pyval \<Rightarrow> string \<Rightarrow> 'w \<times> event list \<times> bool \<times> exn option" where
  "try_update env w identifier remove message_id =
     (case update_search_index env w identifier remove of
        (w1, None) \<Rightarrow> ack_in_try env w1 message_id [CallUpdate identifier remove] False
      | (w1, Some error) \<Rightarrow>
          if is_retry error
          then (let evs = [CallUpdate identifier remove,
                           Log WARNING ''Problem while processing %r: %s''
                             [Val identifier, Err error]]
                          @ on_error error @ [Sleep 1, CallUpdate identifier remove]
                in case update_search_index env w1 identifier remove of
                     (w2, None) \<Rightarrow> ack_in_try env w2 message_id evs True
                   | (w2, Some error2) \<Rightarrow> (w2, evs, True, Some error2))
          else (w1, [CallUpdate identifier remove], False, Some error))"

text \<open>
  \<^verbatim>\<open>process_message(message_body, message_id, queue)\<close>: the world, the calls made, and
  the exception that escapes the handler, if any.
\<close>

definition process_message ::
  "'w consumer_env \<Rightarrow> 'w \<Rightarrow> string \<Rightarrow> string \<Rightarrow> 'w \<times> event list \<times> exn option" where
  "process_message env w message_body message_id =
     (case deserialize env message_body of
        Inl error \<Rightarrow>
          (case queue_ack env w message_id of
             (w', None) \<Rightarrow>
               (w', [Log ERROR ''Invalid message: %s'' [Err error], Ack message_id], None)
           | (w', Some e) \<Rightarrow> (w', [Log ERROR ''Invalid message: %s'' [Err error]], Some e))
      | Inr (identifier, remove) \<Rightarrow>
          (case try_update env w identifier remove message_id of
             (w1, evs, retry, None) \<Rightarrow> (w1, evs, None)
           | (w1, evs, retry, Some error) \<Rightarrow>
               if retry
               then (w1,
                     evs @ [Log CRITICAL ''Could not process %r: %s'' [Val identifier, Err error],
                            Log ERROR ''Not accepting message for %r'' [Val identifier]],
                     None)
               else (case queue_ack env w1 message_id of
                       (w2, None) \<Rightarrow>
                         (w2,
                          evs @ [Log ERROR ''Unhandled error while processing %r: %s''
                                   [Val identifier, Err error],
                                 Ack message_id],
                          None)
                     | (w2, Some e) \<Rightarrow>
                         (w2,
                          evs @ [Log ERROR ''Unhandled error while processing %r: %s''
                                   [Val identifier, Err error]],
                          Some e))))"




definition bulk_writes :: "event list \<Rightarrow> (string \<times> pyval) list list list" where
  "bulk_writes evs = concat (map (\<lambda>ev. case ev of BulkIndex n docs \<Rightarrow> [docs] | _ \<Rightarrow> []) evs)"

section \<open>Identifier round trip\<close>

lemma split_head:
  assumes "sep \<in> set s"
  shows "takeWhile (\<lambda>c. c \<noteq> sep) s @ sep # tl (dropWhile (\<lambda>c. c \<noteq> sep) s) = s"
  using assms by (induction s) auto

lemma str_split_not_Nil: "str_split sep n s \<noteq> []"
  by (cases n) auto

lemma str_join_split: "str_join sep (str_split sep n s) = s"
proof (induction n arbitrary: s)
  case 0
  show ?case by simp
next
  case (Suc n)
  show ?case
  proof (cases "sep \<in> set s")
    case True
    let ?rest = "tl (dropWhile (\<lambda>c. c \<noteq> sep) s)"
    obtain y ys where r: "str_split sep n ?rest = y # ys"
      using str_split_not_Nil [of sep n ?rest] by (cases "str_split sep n ?rest") auto
    have "str_join sep (y # ys) = ?rest"
      using Suc.IH [of ?rest] r by simp
    then show ?thesis
      using True r split_head [OF True] by simp
  next
    case False
    then show ?thesis by simp
  qed
qed

lemma count_after_first:
  "sep \<in> set s \<Longrightarrow>
   count_list s sep = Suc (count_list (tl (dropWhile (\<lambda>c. c \<noteq> sep) s)) sep)"
  by (induction s) auto

lemma length_str_split: "length (str_split sep n s) = Suc (min n (count_list s sep))"
proof (induction n arbitrary: s)
  case 0
  show ?case by simp
next
  case (Suc n)
  show ?case
  proof (cases "sep \<in> set s")
    case True
    then show ?thesis using Suc.IH count_after_first [OF True] by simp
  next
    case False
    then show ?thesis by simp
  qed
qed

lemma str_split_prefix:
  "sep \<notin> set a \<Longrightarrow> str_split sep (Suc n) (a @ sep # r) = a # str_split sep n r"
  by (induction a) auto

lemma split_identifier_join:
  assumes "split_identifier s = Inr (a, b, c)"
  shows "make_identifier a b c = s"
proof -
  have "str_split CHR ''.'' 2 s = [a, b, c]"
    using assms by (auto simp: split_identifier_def split: list.splits)
  then have "str_join CHR ''.'' [a, b, c] = s"
    using str_join_split [of "CHR ''.''" 2 s] by simp
  then show ?thesis by (simp add: make_identifier_def)
qed

lemma split_identifier_total:
  "\<exists>t. split_identifier (make_identifier ns name pk) = Inr t"
proof -
  let ?s = "make_identifier ns name pk"
  have "2 \<le> count_list ?s CHR ''.''"
    by (simp add: make_identifier_def)
  then have "length (str_split CHR ''.'' 2 ?s) = 3"
    using length_str_split [of "CHR ''.''" 2 ?s] by simp
  then obtain a b c where "str_split CHR ''.'' 2 ?s = [a, b, c]"
    by (auto simp: length_Suc_conv numeral_3_eq_3)
  then show ?thesis by (simp add: split_identifier_def)
qed

text \<open>
  C9. An identifier string \<^verbatim>\<open>ns.name.pk\<close> always splits into exactly three
  components, and joining the three components with dots gives the string back. When the
  namespace and the type name hold no dot, the three components are the namespace, the
  type name and the primary key; the primary key may hold dots, since only the first two
  dots split.
\<close>

theorem identifier_round_trip:
  "(\<exists>a b c. split_identifier (make_identifier ns name pk) = Inr (a, b, c)
       \<and> make_identifier a b c = make_identifier ns name pk)
   \<and> (CHR ''.'' \<notin> set ns \<and> CHR ''.'' \<notin> set name
        \<longrightarrow> split_identifier (make_identifier ns name pk) = Inr (ns, name, pk))"
proof
  obtain a b c where t: "split_identifier (make_identifier ns name pk) = Inr (a, b, c)"
    using split_identifier_total [of ns name pk] by (metis prod_cases3)
  then show "\<exists>a b c. split_identifier (make_identifier ns name pk) = Inr (a, b, c)
       \<and> make_identifier a b c = make_identifier ns name pk"
    using split_identifier_join by blast
next
  show "CHR ''.'' \<notin> set ns \<and> CHR ''.'' \<notin> set name
        \<longrightarrow> split_identifier (make_identifier ns name pk) = Inr (ns, name, pk)"
  proof
    assume h: "CHR ''.'' \<notin> set ns \<and> CHR ''.'' \<notin> set name"
    have "str_split CHR ''.'' 2 (ns @ CHR ''.'' # name @ CHR ''.'' # pk) = [ns, name, pk]"
      using h str_split_prefix [of "CHR ''.''" ns 1 "name @ CHR ''.'' # pk"]
        str_split_prefix [of "CHR ''.''" name 0 pk]
      by (simp add: numeral_2_eq_2)
    then show "split_identifier (make_identifier ns name pk) = Inr (ns, name, pk)"
      by (simp add: split_identifier_def make_identifier_def)
  qed
qed

theorem identifier_round_trip_witness:
  "split_identifier (make_identifier ''blog'' ''post'' ''42'') = Inr (''blog'', ''post'', ''42'')
   \<and> make_identifier ''blog'' ''post'' ''42'' = ''blog.post.42''"
  using identifier_round_trip [of "''blog''" "''post''" "''42''"]
  by (simp add: make_identifier_def)

section \<open>Conflict detection yields a field once for each conflicting property\<close>

lemma count_list_all_same: "(\<forall>y \<in> set ys. y = f) \<Longrightarrow> count_list ys f = length ys"
  by (induction ys) auto

lemma count_list_concat_own:
  assumes "distinct xs" and "\<And>x y. y \<in> set (g x) \<Longrightarrow> y = x"
  shows "count_list (concat (map g xs)) f = (if f \<in> set xs then length (g f) else 0)"
  using assms(1)
proof (induction xs)
  case Nil
  show ?case by simp
next
  case (Cons x xs)
  show ?case
  proof (cases "x = f")
    case True
    have "count_list (g f) f = length (g f)"
      using assms(2) by (intro count_list_all_same) auto
    with True Cons show ?thesis by simp
  next
    case False
    have "f \<notin> set (g x)" using assms(2) False by auto
    then have "count_list (g x) f = 0" by simp
    with False Cons show ?thesis by simp
  qed
qed

lemma shared_fields_distinct: "distinct (shared_fields old_props new_props)"
  by (simp add: shared_fields_def)

lemma shared_fields_member:
  "f \<in> set (shared_fields old_props new_props) \<longleftrightarrow>
     f \<in> fst ` set old_props \<and> f \<in> fst ` set new_props"
  by (auto simp: shared_fields_def)

lemma field_yields_own: "y \<in> set (field_yields f e n) \<Longrightarrow> y = f"
  by (auto simp: field_yields_def)

lemma getitem_Inr: "getitem d k = Inr v \<Longrightarrow> map_of d k = Some v"
  by (auto simp: getitem_def split: option.splits)

lemma find_conflicts_count_field:
  assumes om: "getitem old_mappings ''modelresult'' = Inr old_doc"
    and op: "getitem old_doc ''properties'' = Inr old_props"
    and nm: "getitem new_descs ''modelresult'' = Inr new_doc"
    and np: "getitem new_doc ''properties'' = Inr new_props"
    and oe: "map_of old_props f = Some old_desc"
    and ne: "map_of new_props f = Some new_desc"
  shows "\<exists>ys. find_conflicts old_mappings new_descs = Inr ys
           \<and> count_list ys f = length (field_yields f old_desc new_desc)"
proof -
  let ?g = "\<lambda>field_name.
              case (map_of old_props field_name, map_of new_props field_name) of
                (Some e, Some n) \<Rightarrow> field_yields field_name e n
              | _ \<Rightarrow> []"
  have ne1: "old_mappings \<noteq> []" "new_descs \<noteq> []"
    using om nm by (auto simp: getitem_def)
  have fc: "find_conflicts old_mappings new_descs
              = Inr (concat (map ?g (shared_fields old_props new_props)))"
    using ne1 om op nm np by (simp add: find_conflicts_def)
  have own: "\<And>x y. y \<in> set (?g x) \<Longrightarrow> y = x"
    by (auto split: option.splits dest: field_yields_own)
  have mem: "f \<in> set (shared_fields old_props new_props)"
    using oe ne by (auto simp: shared_fields_member dest: map_of_SomeD intro: rev_image_eqI)
  have "count_list (concat (map ?g (shared_fields old_props new_props))) f = length (?g f)"
    using count_list_concat_own [of "shared_fields old_props new_props" ?g f,
        OF shared_fields_distinct own] mem by simp
  then show ?thesis using fc oe ne by simp
qed

text \<open>
  C7, as amended. For two mapping documents of the expected shape and a field name that is
  a key of both schemas: when the field's \<^verbatim>\<open>type\<close> values differ and the pair is not a
  declared equivalence, \<^verbatim>\<open>find_conflicts\<close> yields the field name once for each of the
  properties \<^verbatim>\<open>analyzer\<close>, \<^verbatim>\<open>store\<close>, \<^verbatim>\<open>type\<close> that conflicts: at least once and
  at most three times.
\<close>

theorem find_conflicts_type_conflict:
  assumes "getitem old_mappings ''modelresult'' = Inr old_doc"
    and "getitem old_doc ''properties'' = Inr old_props"
    and "getitem new_descs ''modelresult'' = Inr new_doc"
    and "getitem new_doc ''properties'' = Inr new_props"
    and "map_of old_props f = Some old_desc"
    and "map_of new_props f = Some new_desc"
    and differ: "\<not> py_eq (dict_get new_desc ''type'') (dict_get old_desc ''type'')"
    and not_equivalent:
      "\<not> list_ex (py_set_eq [dict_get old_desc ''type'', dict_get new_desc ''type''])
           EQUIVALENT_VALUES"
  shows "\<exists>ys. find_conflicts old_mappings new_descs = Inr ys
           \<and> count_list ys f
               = length (filter (prop_conflicts old_desc new_desc)
                           [''analyzer'', ''store'', ''type''])
           \<and> 1 \<le> count_list ys f \<and> count_list ys f \<le> 3"
proof -
  obtain ys where ys: "find_conflicts old_mappings new_descs = Inr ys"
    and c: "count_list ys f = length (field_yields f old_desc new_desc)"
    using find_conflicts_count_field [OF assms(1-6)] by blast
  have t: "prop_conflicts old_desc new_desc ''type''"
    using differ not_equivalent by (simp add: prop_conflicts_def)
  have l: "length (field_yields f old_desc new_desc)
             = length (filter (prop_conflicts old_desc new_desc)
                         [''analyzer'', ''store'', ''type''])"
    by (simp add: field_yields_def)
  have "1 \<le> length (filter (prop_conflicts old_desc new_desc)
                      [''analyzer'', ''store'', ''type''])"
    using t by simp
  moreover have "length (filter (prop_conflicts old_desc new_desc)
                      [''analyzer'', ''store'', ''type'']) \<le> 3"
    using length_filter_le [of "prop_conflicts old_desc new_desc"
        "[''analyzer'', ''store'', ''type'']"] by simp
  ultimately show ?thesis using ys c l by simp
qed

theorem find_conflicts_type_conflict_witness:
  "\<exists>ys. find_conflicts
     [(''modelresult'', [(''properties'', [(''pub_date'', [(''type'', StrValue ''string'')])])])]
     [(''modelresult'', [(''properties'', [(''pub_date'', [(''type'', StrValue ''date'')])])])]
      = Inr ys \<and> count_list ys ''pub_date'' = 1"
  using find_conflicts_type_conflict
      [of "[(''modelresult'', [(''properties'', [(''pub_date'', [(''type'', StrValue ''string'')])])])]"
          "[(''properties'', [(''pub_date'', [(''type'', StrValue ''string'')])])]"
          "[(''pub_date'', [(''type'', StrValue ''string'')])]"
          "[(''modelresult'', [(''properties'', [(''pub_date'', [(''type'', StrValue ''date'')])])])]"
          "[(''properties'', [(''pub_date'', [(''type'', StrValue ''date'')])])]"
          "[(''pub_date'', [(''type'', StrValue ''date'')])]"
          "''pub_date''"
          "[(''type'', StrValue ''string'')]"
          "[(''type'', StrValue ''date'')]"]
  by (auto simp: getitem_def dict_get_def py_set_eq_def EQUIVALENT_VALUES_def prop_conflicts_def)

text \<open>
  A field whose \<^verbatim>\<open>type\<close> and \<^verbatim>\<open>analyzer\<close> both changed is yielded twice, not once.
\<close>

theorem find_conflicts_twice_counterexample:
  "getitem [(''title'', [(''type'', StrValue ''string''), (''analyzer'', StrValue ''snowball'')])]
       ''title'' = Inr [(''type'', StrValue ''string''), (''analyzer'', StrValue ''snowball'')]
   \<and> getitem [(''title'', [(''type'', StrValue ''long'')])] ''title''
       = Inr [(''type'', StrValue ''long'')]
   \<and> \<not> py_eq (StrValue ''long'') (StrValue ''string'')
   \<and> \<not> list_ex (py_set_eq [StrValue ''string'', StrValue ''long'']) EQUIVALENT_VALUES
   \<and> find_conflicts
       [(''modelresult'', [(''properties'',
          [(''title'', [(''type'', StrValue ''string''), (''analyzer'', StrValue ''snowball'')])])])]
       [(''modelresult'', [(''properties'', [(''title'', [(''type'', StrValue ''long'')])])])]
     = Inr [''title'', ''title'']"
  by (simp add: find_conflicts_def getitem_def shared_fields_def field_yields_def
      prop_conflicts_def dict_get_def py_set_eq_def EQUIVALENT_VALUES_def)

section \<open>Boolean fields in the built schema\<close>

lemma dict_get_delete:
  "dict_get (AList.delete k d) k' = (if k = k' then NoneValue else dict_get d k')"
  by (simp add: dict_get_def delete_conv')

lemma dict_get_update:
  "dict_get (AList.update k v d) k' = (if k = k' then v else dict_get d k')"
  by (simp add: dict_get_def update_conv')

lemma adjust_mapping_type: "dict_get (adjust_mapping m) ''type'' = dict_get m ''type''"
  by (simp add: adjust_mapping_def Let_def dict_get_delete dict_get_update)

lemma py_eq_StrValue: "py_eq v (StrValue s) \<longleftrightarrow> v = StrValue s"
  by (cases v) auto

lemma adjust_mapping_index:
  assumes "py_eq (dict_get m ''type'') (StrValue ''boolean'')"
  shows "map_of (adjust_mapping m) ''index'' \<noteq> Some (StrValue ''analyzed'')"
proof (cases "py_eq (dict_get m ''index'') (StrValue ''analyzed'')")
  case True
  with assms show ?thesis
    by (simp add: adjust_mapping_def Let_def delete_conv' update_conv')
next
  case False
  then have "map_of m ''index'' \<noteq> Some (StrValue ''analyzed'')"
    by (auto simp: dict_get_def)
  with assms False show ?thesis
    by (simp add: adjust_mapping_def Let_def delete_conv' update_conv')
qed

lemma adjust_mapping_analyzer:
  "map_of (adjust_mapping m) ''analyzer'' = None
   \<or> map_of (adjust_mapping m) ''analyzer'' = map_of m ''analyzer''"
  by (simp add: adjust_mapping_def Let_def delete_conv' update_conv')

text \<open>
  C8, as amended. On a backend flagged \<^verbatim>\<open>new_version\<close>, every field of the returned
  schema whose type is boolean carries no \<^verbatim>\<open>index\<close> attribute equal to \<^verbatim>\<open>analyzed\<close>,
  and it carries an \<^verbatim>\<open>analyzer\<close> attribute only if the inherited builder's descriptor
  of that field carries the same one. On a backend not flagged \<^verbatim>\<open>new_version\<close> the
  schema of the inherited builder is returned as it is.
\<close>

theorem build_schema_boolean:
  "build_schema False sb fs = sb fs
   \<and> (\<forall>field m. (field, m) \<in> set (snd (build_schema True sb fs))
          \<and> py_eq (dict_get m ''type'') (StrValue ''boolean'')
        \<longrightarrow> map_of m ''index'' \<noteq> Some (StrValue ''analyzed'')
            \<and> (\<exists>m0. (field, m0) \<in> set (snd (sb fs)) \<and> m = adjust_mapping m0
                  \<and> (map_of m ''analyzer'' = None
                       \<or> map_of m ''analyzer'' = map_of m0 ''analyzer'')))"
proof (intro conjI allI impI)
  show "build_schema False sb fs = sb fs"
    by (simp add: build_schema_def split: prod.splits)
next
  fix field m
  assume h: "(field, m) \<in> set (snd (build_schema True sb fs))
               \<and> py_eq (dict_get m ''type'') (StrValue ''boolean'')"
  then obtain m0 where m0: "(field, m0) \<in> set (snd (sb fs))" and m: "m = adjust_mapping m0"
    by (auto simp: build_schema_def split: prod.splits)
  have b0: "py_eq (dict_get m0 ''type'') (StrValue ''boolean'')"
    using h m adjust_mapping_type by simp
  show "map_of m ''index'' \<noteq> Some (StrValue ''analyzed'')"
    using adjust_mapping_index [OF b0] m by simp
  show "\<exists>m0. (field, m0) \<in> set (snd (sb fs)) \<and> m = adjust_mapping m0
          \<and> (map_of m ''analyzer'' = None \<or> map_of m ''analyzer'' = map_of m0 ''analyzer'')"
    using m0 m adjust_mapping_analyzer [of m0] by blast
qed

theorem build_schema_boolean_witness:
  "build_schema True
     (\<lambda>u. (''text'', [(''is_live'', [(''type'', StrValue ''boolean''),
                                      (''index'', StrValue ''analyzed'')])])) ()
   = (''text'', [(''is_live'', [(''type'', StrValue ''boolean'')])])
   \<and> map_of [(''type'', StrValue ''boolean'')] ''index'' \<noteq> Some (StrValue ''analyzed'')"
proof -
  have e: "build_schema True
     (\<lambda>u. (''text'', [(''is_live'', [(''type'', StrValue ''boolean''),
                                      (''index'', StrValue ''analyzed'')])])) ()
   = (''text'', [(''is_live'', [(''type'', StrValue ''boolean'')])])"
    by (simp add: build_schema_def adjust_mapping_def dict_get_def in_ngram_analyzers_def)
  have "(''is_live'', [(''type'', StrValue ''boolean'')])
          \<in> set (snd (build_schema True
     (\<lambda>u. (''text'', [(''is_live'', [(''type'', StrValue ''boolean''),
                                      (''index'', StrValue ''analyzed'')])])) ()))
        \<and> py_eq (dict_get [(''type'', StrValue ''boolean'')] ''type'') (StrValue ''boolean'')"
    using e by (simp add: dict_get_def)
  then have "map_of [(''type'', StrValue ''boolean'')] ''index'' \<noteq> Some (StrValue ''analyzed'')"
    using build_schema_boolean
      [of "\<lambda>u. (''text'', [(''is_live'', [(''type'', StrValue ''boolean''),
                                      (''index'', StrValue ''analyzed'')])])" "()"]
    by blast
  with e show ?thesis by blast
qed

text \<open>
  Without the flag \<^verbatim>\<open>new_version\<close>, a boolean field that the inherited builder marks
  \<^verbatim>\<open>index = analyzed\<close> keeps the mark in the returned schema.
\<close>

theorem build_schema_old_version_counterexample:
  "build_schema False
     (\<lambda>u. (''text'', [(''is_live'', [(''type'', StrValue ''boolean''),
                                      (''index'', StrValue ''analyzed'')])])) ()
   = (''text'', [(''is_live'', [(''type'', StrValue ''boolean''),
                                (''index'', StrValue ''analyzed'')])])"
  by (simp add: build_schema_def)

section \<open>Errors buried in a response\<close>

lemma collect_errors_step:
  "collect_errors (it # its) acc =
     (if is_dict it
      then collect_errors its (acc @ (case item_error it of None \<Rightarrow> [] | Some err \<Rightarrow> [err]))
      else Inl (Exn AttributeError [PStr ''get'']))"
  by (cases it) (auto simp: py_get_def item_error_def split: option.splits pyval.splits)

lemma collect_errors_Inr:
  "collect_errors its acc = Inr errs \<Longrightarrow> errs = acc @ List.map_filter item_error its"
proof (induction its arbitrary: acc)
  case Nil
  then show ?case by (simp add: map_filter_simps)
next
  case (Cons it its)
  have d: "is_dict it"
    using Cons.prems by (simp only: collect_errors_step split: if_splits) simp
  then have "collect_errors its (acc @ (case item_error it of None \<Rightarrow> [] | Some err \<Rightarrow> [err]))
               = Inr errs"
    using Cons.prems by (simp only: collect_errors_step if_True)
  from Cons.IH [OF this] show ?case
    by (simp add: map_filter_simps split: option.splits)
qed

lemma collect_errors_dicts:
  "\<forall>it \<in> set its. is_dict it \<Longrightarrow>
   collect_errors its acc = Inr (acc @ List.map_filter item_error its)"
proof (induction its arbitrary: acc)
  case Nil
  then show ?case by (simp add: map_filter_simps)
next
  case (Cons it its)
  then show ?case
    by (simp only: collect_errors_step) (simp add: map_filter_simps split: option.splits)
qed

lemma map_filter_Nil_iff: "List.map_filter f xs = [] \<longleftrightarrow> (\<forall>x \<in> set xs. f x = None)"
  by (induction xs) (auto simp: map_filter_simps split: option.splits)

text \<open>
  C4. For a response whose \<^verbatim>\<open>items\<close> entry is a list: if some item carries an error
  object, the call raises; when the items are result objects and the error objects are
  strings, it raises ElasticSearchError with their number and their lines; and if the
  items are result objects none of which carries an error object, the response is
  returned unchanged.
\<close>

theorem send_request_buried_errors:
  assumes items: "map_of response ''items'' = Some (PList its)"
  shows "((\<exists>it \<in> set its. item_error it \<noteq> None)
            \<longrightarrow> (\<exists>e. send_request (Inr (PDict response)) = Inl e))
       \<and> ((\<forall>it \<in> set its. is_dict it) \<and> strs \<noteq> []
             \<and> strings_of (List.map_filter item_error its) = Some strs
            \<longrightarrow> send_request (Inr (PDict response))
                  = Inl (Exn ElasticSearchError
                           [PInt (int (length strs)), PStr (str_join (CHR 0x0A) strs)]))
       \<and> ((\<forall>it \<in> set its. is_dict it \<and> item_error it = None)
            \<longrightarrow> send_request (Inr (PDict response)) = Inr (PDict response))"
proof (intro conjI impI)
  assume ex: "\<exists>it \<in> set its. item_error it \<noteq> None"
  show "\<exists>e. send_request (Inr (PDict response)) = Inl e"
  proof (cases "collect_errors its []")
    case (Inl e)
    then show ?thesis using items by (simp add: send_request_def py_get_def)
  next
    case (Inr errs)
    then have "errs = List.map_filter item_error its"
      using collect_errors_Inr by fastforce
    then have "errs \<noteq> []" using ex by (simp add: map_filter_Nil_iff)
    then show ?thesis using items Inr
      by (cases "join_errors errs") (auto simp: send_request_def py_get_def)
  qed
next
  assume h: "(\<forall>it \<in> set its. is_dict it) \<and> strs \<noteq> []
             \<and> strings_of (List.map_filter item_error its) = Some strs"
  have len: "\<And>vs ss. strings_of vs = Some ss \<Longrightarrow> length ss = length vs"
  proof -
    fix vs ss show "strings_of vs = Some ss \<Longrightarrow> length ss = length vs"
      by (induction vs arbitrary: ss rule: strings_of.induct) auto
  qed
  have c: "collect_errors its [] = Inr (List.map_filter item_error its)"
    using h collect_errors_dicts [of its "[]"] by simp
  have l: "length (List.map_filter item_error its) = length strs"
    using h len by fastforce
  then have "List.map_filter item_error its \<noteq> []" using h by auto
  then show "send_request (Inr (PDict response))
                  = Inl (Exn ElasticSearchError
                           [PInt (int (length strs)), PStr (str_join (CHR 0x0A) strs)])"
    using items c h l by (simp add: send_request_def py_get_def join_errors_def)
next
  assume h: "\<forall>it \<in> set its. is_dict it \<and> item_error it = None"
  then have c: "collect_errors its [] = Inr (List.map_filter item_error its)"
    using collect_errors_dicts [of its "[]"] by simp
  have "List.map_filter item_error its = []"
    using h by (simp add: map_filter_Nil_iff)
  then show "send_request (Inr (PDict response)) = Inr (PDict response)"
    using items c by (simp add: send_request_def py_get_def)
qed

theorem send_request_buried_errors_witness:
  "send_request (Inr (PDict [(''took'', PInt 3), (''items'', PList
       [PDict [(''index'', PDict [(''_id'', PStr ''blog.post.1''), (''ok'', PBool True)])],
        PDict [(''index'', PDict [(''_id'', PStr ''blog.post.2''),
                                  (''error'', PStr ''MapperParsingException'')])]])]))
   = Inl (Exn ElasticSearchError [PInt 1, PStr ''MapperParsingException''])
   \<and> send_request (Inr (PDict [(''took'', PInt 3), (''items'', PList
       [PDict [(''index'', PDict [(''_id'', PStr ''blog.post.1''), (''ok'', PBool True)])]])]))
   = Inr (PDict [(''took'', PInt 3), (''items'', PList
       [PDict [(''index'', PDict [(''_id'', PStr ''blog.post.1''), (''ok'', PBool True)])]])])"
  using send_request_buried_errors
    [of "[(''took'', PInt 3), (''items'', PList
       [PDict [(''index'', PDict [(''_id'', PStr ''blog.post.1''), (''ok'', PBool True)])],
        PDict [(''index'', PDict [(''_id'', PStr ''blog.post.2''),
                                  (''error'', PStr ''MapperParsingException'')])]])]"
        "[PDict [(''index'', PDict [(''_id'', PStr ''blog.post.1''), (''ok'', PBool True)])],
        PDict [(''index'', PDict [(''_id'', PStr ''blog.post.2''),
                                  (''error'', PStr ''MapperParsingException'')])]]"
        "[''MapperParsingException'']"]
    send_request_buried_errors
    [of "[(''took'', PInt 3), (''items'', PList
       [PDict [(''index'', PDict [(''_id'', PStr ''blog.post.1''), (''ok'', PBool True)])]])]"
        "[PDict [(''index'', PDict [(''_id'', PStr ''blog.post.1''), (''ok'', PBool True)])]]"
        "[]"]
  by (simp add: item_error_def map_filter_simps)

section \<open>Set-up raises the original error\<close>

lemma conflict_check_original: "conflict_check existing current error = error"
  by (simp add: conflict_check_def)

lemma fetch_existing_raises_original: "fetch_existing c b index_name error = Inl e \<Longrightarrow> e = error"
  by (auto simp: fetch_existing_def split: sum.splits if_splits)

lemma setup_index_raises_original:
  assumes "setup_index c s lg sb b (index_name, fs) = (b', evs, Some e)"
  shows "create_index c index_name = Some e
       \<or> (create_index c index_name = None
            \<and> put_mapping c index_name
                 [(''modelresult'',
                   [(''properties'', snd (build_schema (new_version b) sb fs))])] = Some e)
       \<or> (\<not> DEBUG s \<and> \<not> TEST_MODE s \<and> silently_fail b \<and> (\<exists>error. lg error = Some e))"
  using assms
  by (auto simp: setup_index_def Let_def conflict_check_original fetch_existing_def
      split: prod.splits option.splits sum.splits if_splits)

lemma setup_groups_raises_original:
  "setup_groups c s lg sb b gs = (b', evs, Some e) \<Longrightarrow>
   (\<exists>index_name. create_index c index_name = Some e
       \<or> (\<exists>m. put_mapping c index_name m = Some e))
   \<or> (\<not> DEBUG s \<and> \<not> TEST_MODE s \<and> (\<exists>error. lg error = Some e))"
proof (induction gs arbitrary: b b' evs)
  case Nil
  then show ?case by simp
next
  case (Cons g gs)
  obtain index_name fs where g: "g = (index_name, fs)" by (cases g)
  obtain b1 evs1 r1 where s1: "setup_index c s lg sb b g = (b1, evs1, r1)"
    by (cases "setup_index c s lg sb b g") auto
  show ?case
  proof (cases r1)
    case (Some e1)
    with Cons.prems s1 have "e1 = e" by simp
    with Some s1 g setup_index_raises_original [of c s lg sb b index_name fs b1 evs1 e]
    show ?thesis by blast
  next
    case None
    with Cons.prems s1 obtain b2 evs2 where "setup_groups c s lg sb b1 gs = (b2, evs2, Some e)"
      by (auto split: prod.splits)
    from Cons.IH [OF this] show ?thesis .
  qed
qed

text \<open>
  C3. The engine refuses the mapping of the index \<^verbatim>\<open>haystack\<close> and reports a schema in
  which the field \<^verbatim>\<open>title\<close> has another type than in the schema being pushed. Conflict
  detection finds the field and the loop raises the mapping conflict error for it, but
  the handler around the loop catches that error too: what leaves the set-up is the
  engine's error, not the mapping conflict error.
\<close>

theorem setup_mapping_conflict_swallowed:
  "find_conflicts
     [(''modelresult'', [(''properties'', [(''title'', [(''type'', StrValue ''long'')])])])]
     [(''modelresult'', [(''properties'', [(''title'', [(''type'', StrValue ''string'')])])])]
     = Inr [''title'']
   \<and> conflict_check_body
     [(''modelresult'', [(''properties'', [(''title'', [(''type'', StrValue ''long'')])])])]
     [(''modelresult'', [(''properties'', [(''title'', [(''type'', StrValue ''string'')])])])]
     (Exn ElasticSearchError [PStr ''MergeMappingException''])
     = Exn HaystackError [PStr ''title'']
   \<and> snd (snd (backend_setup
       \<lparr>create_index = (\<lambda>n. None),
        put_mapping = (\<lambda>n m. Some (Exn ElasticSearchError [PStr ''MergeMappingException''])),
        get_mapping = Inr [(''haystack'',
          [(''modelresult'', [(''properties'', [(''title'', [(''type'', StrValue ''long'')])])])])]\<rparr>
       \<lparr>DEBUG = True, TEST_MODE = False\<rparr>
       (\<lambda>error. Some (Exn TypeError [PStr ''exception'']))
       (\<lambda>u. (''text'', [(''title'', [(''type'', StrValue ''string'')])]))
       \<lparr>silently_fail = False, new_version = False, existing_mapping = [],
        content_field_name = [], setup_complete = False\<rparr>
       [(''haystack'', ())]))
     = Some (Exn ElasticSearchError [PStr ''MergeMappingException''])"
  by (simp add: backend_setup_def setup_index_def fetch_existing_def conflict_check_def
      conflict_check_body_def build_schema_def find_conflicts_def getitem_def shared_fields_def
      field_yields_def prop_conflicts_def dict_get_def py_set_eq_def EQUIVALENT_VALUES_def)

text \<open>
  In the quiet branch (neither debug nor test mode, failing silently) the engine's error
  is handed to the log call, and what that call raises leaves the set-up.
\<close>

lemma setup_quiet_branch:
  "snd (snd (backend_setup
       \<lparr>create_index = (\<lambda>n. Some (Exn ConnectionError [PStr ''refused''])),
        put_mapping = (\<lambda>n m. None),
        get_mapping = Inl (Exn ConnectionError [PStr ''refused''])\<rparr>
       \<lparr>DEBUG = False, TEST_MODE = False\<rparr>
       lg
       (\<lambda>u. (''text'', [(''title'', [(''type'', StrValue ''string'')])]))
       \<lparr>silently_fail = True, new_version = False, existing_mapping = [],
        content_field_name = [], setup_complete = False\<rparr>
       [(''haystack'', ())]))
     = lg (Exn ConnectionError [PStr ''refused''])"
  by (simp add: backend_setup_def setup_index_def fetch_existing_def build_schema_def
      split: option.splits)

section \<open>Bulk update\<close>

lemma prepare_all_ok:
  "map_exn (prepare_one ix) objs = Inr docs \<Longrightarrow>
   prepare_all ix sf objs acc evs = (evs, Inr (acc @ docs))"
proof (induction objs arbitrary: acc docs)
  case Nil
  then show ?case by simp
next
  case (Cons obj objs)
  then show ?case by (auto split: sum.splits)
qed

lemma map_exn_all_ok:
  "\<forall>x \<in> set xs. \<exists>y. f x = Inr y \<Longrightarrow> \<exists>ys. map_exn f xs = Inr ys \<and> length ys = length xs"
  by (induction xs) auto

lemma prepare_all_raises:
  assumes "\<forall>x \<in> set pre. \<exists>d. prepare_one ix x = Inr d"
    and "prepare_one ix obj = Inl e"
    and "\<not> sf \<or> \<not> caught_in_update e"
  shows "prepare_all ix sf (pre @ obj # post) acc evs = (evs, Inl e)"
  using assms(1)
proof (induction pre arbitrary: acc)
  case Nil
  show ?case using assms(2,3) by auto
next
  case (Cons x pre)
  then show ?case by auto
qed

lemma update_after_setup:
  "setup_complete b \<or> run_setup ix = None \<Longrightarrow>
   update ix b index objs commit = update_docs ix b index objs commit"
  by (auto simp: update_def)

text \<open>
  C6, as amended. For a batch passed to \<^verbatim>\<open>update\<close> once set-up has completed: when every
  entity's preparation succeeds, the documents of all entities are submitted, in the
  order of the batch, in one bulk write (the index having a name in
  \<^verbatim>\<open>index_names\<close>); when an entity's preparation raises and the backend is not
  configured to fail silently, or the exception is neither a requests error nor an engine
  error, the exception leaves \<^verbatim>\<open>update\<close> and no call at all is made to the engine.
\<close>

theorem update_bulk_write:
  assumes ready: "setup_complete b \<or> run_setup ix = None"
  shows "((\<forall>obj \<in> set objs. \<exists>d. prepare_one ix obj = Inr d)
            \<and> getitem (index_names ix) index = Inr index_name
          \<longrightarrow> (\<exists>docs. map_exn (prepare_one ix) objs = Inr docs
                  \<and> length docs = length objs
                  \<and> bulk_writes (fst (update ix b index objs commit)) = [docs]))
       \<and> (objs = pre @ obj # post
            \<and> (\<forall>x \<in> set pre. \<exists>d. prepare_one ix x = Inr d)
            \<and> prepare_one ix obj = Inl e
            \<and> (\<not> silently_fail b \<or> \<not> caught_in_update e)
          \<longrightarrow> update ix b index objs commit = ([], Some e))"
proof (intro conjI impI)
  assume h: "(\<forall>obj \<in> set objs. \<exists>d. prepare_one ix obj = Inr d)
            \<and> getitem (index_names ix) index = Inr index_name"
  then obtain docs where d: "map_exn (prepare_one ix) objs = Inr docs"
    and l: "length docs = length objs"
    using map_exn_all_ok [of objs "prepare_one ix"] by blast
  have p: "prepare_all ix (silently_fail b) objs [] [] = ([], Inr docs)"
    using prepare_all_ok [OF d, of "silently_fail b" "[]" "[]"] by simp
  have "bulk_writes (fst (update_docs ix b index objs commit)) = [docs]"
    using p h by (auto simp: update_docs_def bulk_writes_def split: option.splits)
  then show "\<exists>docs. map_exn (prepare_one ix) objs = Inr docs \<and> length docs = length objs
                  \<and> bulk_writes (fst (update ix b index objs commit)) = [docs]"
    using d l update_after_setup [OF ready] by simp
next
  assume h: "objs = pre @ obj # post
            \<and> (\<forall>x \<in> set pre. \<exists>d. prepare_one ix x = Inr d)
            \<and> prepare_one ix obj = Inl e
            \<and> (\<not> silently_fail b \<or> \<not> caught_in_update e)"
  then have "prepare_all ix (silently_fail b) objs [] [] = ([], Inl e)"
    using prepare_all_raises [of pre ix obj e "silently_fail b" post "[]" "[]"] by simp
  then have "update_docs ix b index objs commit = ([], Some e)"
    by (simp add: update_docs_def)
  then show "update ix b index objs commit = ([], Some e)"
    using update_after_setup [OF ready] by simp
qed

theorem update_bulk_write_witness:
  "bulk_writes (fst (update
      \<lparr>full_prepare = (\<lambda>n::nat. Inr [(''id'', PInt (int n))]),
       super_from_python = Inr, object_identifier = (\<lambda>n. ''blog.post''),
       index_names = [(''PostIndex'', ''haystack-blog-post'')],
       bulk_index = (\<lambda>n docs. None), refresh = (\<lambda>n. None), run_setup = None\<rparr>
      \<lparr>silently_fail = False, new_version = False, existing_mapping = [],
       content_field_name = ''text'', setup_complete = True\<rparr>
      ''PostIndex'' [1, 2, 3] True))
    = [[[(''id'', PInt 1)], [(''id'', PInt 2)], [(''id'', PInt 3)]]]
   \<and> update
      \<lparr>full_prepare = (\<lambda>n::nat. if n = 2 then Inl (Exn ValueError [PStr ''bad date''])
                                 else Inr [(''id'', PInt (int n))]),
       super_from_python = Inr, object_identifier = (\<lambda>n. ''blog.post''),
       index_names = [(''PostIndex'', ''haystack-blog-post'')],
       bulk_index = (\<lambda>n docs. None), refresh = (\<lambda>n. None), run_setup = None\<rparr>
      \<lparr>silently_fail = True, new_version = False, existing_mapping = [],
       content_field_name = ''text'', setup_complete = True\<rparr>
      ''PostIndex'' [1, 2, 3] True
    = ([], Some (Exn ValueError [PStr ''bad date'']))"
  using update_bulk_write
    [where b = "\<lparr>silently_fail = False, new_version = False, existing_mapping = [],
       content_field_name = ''text'', setup_complete = True\<rparr>"
       and ix = "\<lparr>full_prepare = (\<lambda>n::nat. Inr [(''id'', PInt (int n))]),
       super_from_python = Inr, object_identifier = (\<lambda>n. ''blog.post''),
       index_names = [(''PostIndex'', ''haystack-blog-post'')],
       bulk_index = (\<lambda>n docs. None), refresh = (\<lambda>n. None), run_setup = None\<rparr>"
       and objs = "[1, 2, 3]" and index = "''PostIndex''"
       and index_name = "''haystack-blog-post''" and commit = True]
    update_bulk_write
    [where b = "\<lparr>silently_fail = True, new_version = False, existing_mapping = [],
       content_field_name = ''text'', setup_complete = True\<rparr>"
       and ix = "\<lparr>full_prepare = (\<lambda>n::nat. if n = 2 then Inl (Exn ValueError [PStr ''bad date''])
                                 else Inr [(''id'', PInt (int n))]),
       super_from_python = Inr, object_identifier = (\<lambda>n. ''blog.post''),
       index_names = [(''PostIndex'', ''haystack-blog-post'')],
       bulk_index = (\<lambda>n docs. None), refresh = (\<lambda>n. None), run_setup = None\<rparr>"
       and objs = "[1, 2, 3]" and index = "''PostIndex''"
       and pre = "[1]" and obj = 2 and post = "[3]"
       and e = "Exn ValueError [PStr ''bad date'']" and commit = True]
  by (simp add: prepare_one_def from_python_def getitem_def caught_in_update_def
      is_RequestException_def)

text \<open>
  A batch of three entities on a backend that does not fail silently: the preparation
  of the second raises an engine error, \<^verbatim>\<open>update\<close> raises it, and nothing is submitted.
\<close>

theorem update_aborts_counterexample:
  "update
      \<lparr>full_prepare = (\<lambda>n::nat. if n = 2 then Inl (Exn ElasticSearchError [PStr ''boom''])
                                 else Inr [(''id'', PInt (int n))]),
       super_from_python = Inr, object_identifier = (\<lambda>n. ''blog.post''),
       index_names = [(''PostIndex'', ''haystack-blog-post'')],
       bulk_index = (\<lambda>n docs. None), refresh = (\<lambda>n. None), run_setup = None\<rparr>
      \<lparr>silently_fail = False, new_version = False, existing_mapping = [],
       content_field_name = ''text'', setup_complete = True\<rparr>
      ''PostIndex'' [1, 2, 3] True
    = ([], Some (Exn ElasticSearchError [PStr ''boom'']))"
  by (simp add: update_def update_docs_def prepare_one_def from_python_def
      caught_in_update_def is_RequestException_def)

text \<open>
  On a backend that fails silently the handler reaches its log call, whose argument
  \<^verbatim>\<open>e.__name__\<close> raises AttributeError: the batch is aborted there too.
\<close>

lemma update_silent_handler_raises:
  "update
      \<lparr>full_prepare = (\<lambda>n::nat. if n = 2 then Inl (Exn ElasticSearchError [PStr ''boom''])
                                 else Inr [(''id'', PInt (int n))]),
       super_from_python = Inr, object_identifier = (\<lambda>n. ''blog.post''),
       index_names = [(''PostIndex'', ''haystack-blog-post'')],
       bulk_index = (\<lambda>n docs. None), refresh = (\<lambda>n. None), run_setup = None\<rparr>
      \<lparr>silently_fail = True, new_version = False, existing_mapping = [],
       content_field_name = ''text'', setup_complete = True\<rparr>
      ''PostIndex'' [1, 2, 3] True
    = ([], Some (Exn AttributeError [PStr ''__name__'']))"
  by (simp add: update_def update_docs_def prepare_one_def from_python_def
      caught_in_update_def is_RequestException_def exception_name_def)

section \<open>Update dispatch\<close>

lemma update_object_body_missing:
  assumes "get_index env (IdentStr ident) = Inr index"
    and "lazy_exists env ident = Inr False"
    and "\<not> truthy remove"
  shows "update_object_body env (IdentStr ident) remove
           = ([Log WARNING ''Could not access %r for indexing'' [Val (PStr ident)],
               RemoveObject index ident],
              index_remove_object env index ident, Lazy ident)"
  using assms
  by (simp add: update_object_body_def apply_update_def get_identifier_def)

text \<open>
  C10. An identifier string is passed to \<^verbatim>\<open>update_object\<close> with a false \<open>remove\<close>, its
  index is found, and the lazily loaded object is empty. Then a warning naming the
  identifier is logged and \<^verbatim>\<open>remove_object\<close> of the index is called with the
  identifier; these are the only calls, but for the log of the exception when the
  removal raises and exceptions are handled; no index write is among them. What
  \<^verbatim>\<open>update_object\<close> raises is what the removal raised (with exception handling, what the
  logger raised for it).
\<close>

theorem update_object_missing_entity:
  assumes "get_index env (IdentStr ident) = Inr index"
    and "lazy_exists env ident = Inr False"
    and "\<not> truthy remove"
  shows "fst (update_object env (IdentStr ident) remove exception_handling)
           = [Log WARNING ''Could not access %r for indexing'' [Val (PStr ident)],
              RemoveObject index ident]
             @ (if index_remove_object env index ident \<noteq> None \<and> exception_handling
                then [LogException ''Error running update_object(%r)'' [Obj (Lazy ident)]]
                else [])
       \<and> (\<forall>i x. UpdateObject i x
             \<notin> set (fst (update_object env (IdentStr ident) remove exception_handling)))
       \<and> snd (update_object env (IdentStr ident) remove exception_handling)
           = (case index_remove_object env index ident of
                None \<Rightarrow> None
              | Some e \<Rightarrow> if exception_handling then logging_exception env e else Some e)"
  using update_object_body_missing [OF assms]
  by (auto simp: update_object_def split: option.splits)

theorem update_object_missing_entity_witness:
  "update_object
     \<lparr>content_type_model = (\<lambda>a m. Inr (Some (a, m))),
      unified_get_index = (\<lambda>m. Inr ''PostIndex''),
      lazy_exists = (\<lambda>s. Inr False),
      lazy_class = (\<lambda>s. (''blog'', ''post'')),
      index_remove_object = (\<lambda>i s. None),
      index_update_object = (\<lambda>i x. None),
      class_identifier = (\<lambda>m. Inl (Exn TypeError [])),
      logging_exception = (\<lambda>e. None),
      pickle_dumps = (\<lambda>v. ''bytes''),
      queue_put = (\<lambda>s. None)\<rparr>
     (IdentStr ''blog.post.42'') (PBool False) True
   = ([Log WARNING ''Could not access %r for indexing'' [Val (PStr ''blog.post.42'')],
       RemoveObject ''PostIndex'' ''blog.post.42''], None)"
  using update_object_missing_entity
    [where env = "\<lparr>content_type_model = (\<lambda>a m. Inr (Some (a, m))),
      unified_get_index = (\<lambda>m. Inr ''PostIndex''),
      lazy_exists = (\<lambda>s. Inr False),
      lazy_class = (\<lambda>s. (''blog'', ''post'')),
      index_remove_object = (\<lambda>i s. None),
      index_update_object = (\<lambda>i x. None),
      class_identifier = (\<lambda>m. Inl (Exn TypeError [])),
      logging_exception = (\<lambda>e. None),
      pickle_dumps = (\<lambda>v. ''bytes''),
      queue_put = (\<lambda>s. None)\<rparr>"
      and ident = "''blog.post.42''" and index = "''PostIndex''"
      and remove = "PBool False" and exception_handling = True]
  by (simp add: get_index_def get_model_def model_of_identifier_def split_identifier_def
      numeral_2_eq_2 prod_eq_iff)

text \<open>
  C5, as amended. When putting the message on the queue raises, \<^verbatim>\<open>queue_update\<close> calls
  the logger. When the log call returns, it calls \<^verbatim>\<open>update_object\<close> with the same item
  and the same \<open>remove\<close>: its calls follow the log, and its outcome is the outcome of
  \<^verbatim>\<open>queue_update\<close>, as if the update had been made synchronously. When the log call
  raises, its exception leaves \<^verbatim>\<open>queue_update\<close> and no update is made.
\<close>

theorem queue_update_falls_back:
  assumes "get_identifier env it = Inr ident"
    and "queue_put env (pickle_dumps env (update_message ident remove)) = Some e"
  shows "queue_update env it remove
           = (case logging_exception env e of
                None \<Rightarrow>
                  ([QueuePut (pickle_dumps env (update_message ident remove)),
                    LogException
                      ''Could not send async message. Running search update immediately.'' []]
                   @ fst (update_object env it remove True),
                   snd (update_object env it remove True))
              | Some e' \<Rightarrow>
                  ([QueuePut (pickle_dumps env (update_message ident remove)),
                    LogException
                      ''Could not send async message. Running search update immediately.'' []],
                   Some e'))"
  using assms by (simp add: queue_update_def Let_def split: prod.splits option.splits)

theorem queue_update_falls_back_witness:
  "queue_update
     \<lparr>content_type_model = (\<lambda>a m. Inr (Some (a, m))),
      unified_get_index = (\<lambda>m. Inr ''PostIndex''),
      lazy_exists = (\<lambda>s. Inr True),
      lazy_class = (\<lambda>s. (''blog'', ''post'')),
      index_remove_object = (\<lambda>i s. None),
      index_update_object = (\<lambda>i x. None),
      class_identifier = (\<lambda>m. Inl (Exn TypeError [])),
      logging_exception = (\<lambda>e. None),
      pickle_dumps = (\<lambda>v. ''bytes''),
      queue_put = (\<lambda>s. Some (Exn ConnectionError [PStr ''queue unreachable'']))\<rparr>
     (Instance (''blog'', ''post'') ''42'') (PBool False)
   = ([QueuePut ''bytes'',
       LogException ''Could not send async message. Running search update immediately.'' [],
       UpdateObject ''PostIndex'' (Instance (''blog'', ''post'') ''42'')], None)"
  using queue_update_falls_back
    [where env = "\<lparr>content_type_model = (\<lambda>a m. Inr (Some (a, m))),
      unified_get_index = (\<lambda>m. Inr ''PostIndex''),
      lazy_exists = (\<lambda>s. Inr True),
      lazy_class = (\<lambda>s. (''blog'', ''post'')),
      index_remove_object = (\<lambda>i s. None),
      index_update_object = (\<lambda>i x. None),
      class_identifier = (\<lambda>m. Inl (Exn TypeError [])),
      logging_exception = (\<lambda>e. None),
      pickle_dumps = (\<lambda>v. ''bytes''),
      queue_put = (\<lambda>s. Some (Exn ConnectionError [PStr ''queue unreachable'']))\<rparr>"
      and it = "Instance (''blog'', ''post'') ''42''" and ident = "''blog.post.42''"
      and remove = "PBool False" and e = "Exn ConnectionError [PStr ''queue unreachable'']"]
  by (simp add: get_identifier_def make_identifier_def update_object_def update_object_body_def
      apply_update_def get_index_def get_model_def Let_def)

text \<open>
  The queue is unreachable and the log call raises, as the \<^verbatim>\<open>exception\<close> function of
  the standard library's logging module does for the keyword \<^verbatim>\<open>debug_raise\<close>: the
  exception leaves \<^verbatim>\<open>queue_update\<close>, and neither an index write nor a removal is made.
\<close>

theorem queue_update_lost_counterexample:
  "queue_update
     \<lparr>content_type_model = (\<lambda>a m. Inr (Some (a, m))),
      unified_get_index = (\<lambda>m. Inr ''PostIndex''),
      lazy_exists = (\<lambda>s. Inr True),
      lazy_class = (\<lambda>s. (''blog'', ''post'')),
      index_remove_object = (\<lambda>i s. None),
      index_update_object = (\<lambda>i x. None),
      class_identifier = (\<lambda>m. Inl (Exn TypeError [])),
      logging_exception = (\<lambda>e. Some (Exn TypeError [PStr ''debug_raise''])),
      pickle_dumps = (\<lambda>v. ''bytes''),
      queue_put = (\<lambda>s. Some (Exn ConnectionError [PStr ''queue unreachable'']))\<rparr>
     (Instance (''blog'', ''post'') ''42'') (PBool False)
   = ([QueuePut ''bytes'',
       LogException ''Could not send async message. Running search update immediately.'' []],
      Some (Exn TypeError [PStr ''debug_raise'']))"
  by (simp add: queue_update_def get_identifier_def make_identifier_def)

section \<open>Queue consumer\<close>

lemma process_message_transient_trace:
  assumes d: "deserialize env message_body = Inr (ident, remove)"
    and u1: "update_search_index env w ident remove = (w1, Some error)"
    and t: "is_retry error"
    and u2: "update_search_index env w1 ident remove = (w2, r2)"
    and a: "queue_ack env w2 message_id = (w3, ar)"
  shows "process_message env w message_body message_id
           = ((if r2 = None then w3 else w2),
              [CallUpdate ident remove,
               Log WARNING ''Problem while processing %r: %s'' [Val ident, Err error]]
              @ on_error error
              @ [Sleep 1, CallUpdate ident remove]
              @ (case r2 of
                   None \<Rightarrow>
                     (case ar of
                        None \<Rightarrow> [Ack message_id]
                      | Some ae \<Rightarrow>
                          [Log CRITICAL ''Could not process %r: %s'' [Val ident, Err ae],
                           Log ERROR ''Not accepting message for %r'' [Val ident]])
                 | Some error2 \<Rightarrow>
                     [Log CRITICAL ''Could not process %r: %s'' [Val ident, Err error2],
                      Log ERROR ''Not accepting message for %r'' [Val ident]]),
              None)"
  using assms
  by (simp add: process_message_def try_update_def ack_in_try_def Let_def
      split: option.splits)

lemma process_message_transient_no_escape:
  assumes "deserialize env message_body = Inr (ident, remove)"
    and "update_search_index env w ident remove = (w1, Some error)"
    and "is_retry error"
  shows "snd (snd (process_message env w message_body message_id)) = None"
proof -
  obtain w2 r2 where u2: "update_search_index env w1 ident remove = (w2, r2)"
    by (cases "update_search_index env w1 ident remove") auto
  obtain w3 ar where a: "queue_ack env w2 message_id = (w3, ar)"
    by (cases "queue_ack env w2 message_id") auto
  show ?thesis
    using process_message_transient_trace [OF assms u2 a] by simp
qed








end
